theory Spec2Isabelle
  imports Main
begin

section \<open>Values, errors and wire data\<close>

text \<open>
  The structured payload of a gateway frame, as the JSON parser hands it to the middleware:
  Python's \<open>None\<close>, \<open>bool\<close>, \<open>int\<close>, \<open>str\<close>, \<open>list\<close> and \<open>dict\<close>. A dictionary keeps
  its items in insertion order with unique keys; lookup is \<open>map_of\<close>.
\<close>

datatype json =
    JNull
  | JBool bool
  | JInt int
  | JStr string
  | JList "json list"
  | JObj "(string \<times> json) list"

text \<open>
  Every exception the modelled code can raise is a value; a function that may raise returns
  \<open>error + 'a\<close>, with \<open>Inl\<close> for the exception. \<open>UnavailableGuildError\<close> carries the
  guild id that its message quotes.
\<close>

datatype error =
    DecodeError string
  | TypeError string
  | AttributeError string
  | NameError string
  | KeyError string
  | UnavailableGuildError json

text \<open>Python's truth value of such a value, as an \<open>if\<close> tests it.\<close>

fun truthy :: "json \<Rightarrow> bool" where
  "truthy JNull = False"
| "truthy (JBool b) = b"
| "truthy (JInt n) = (n \<noteq> 0)"
| "truthy (JStr s) = (s \<noteq> [])"
| "truthy (JList xs) = (xs \<noteq> [])"
| "truthy (JObj kvs) = (kvs \<noteq> [])"

text \<open>\<open>d.get(key, default)\<close> on a dictionary.\<close>

definition get :: "(string \<times> json) list \<Rightarrow> string \<Rightarrow> json \<Rightarrow> json" where
  "get d key dflt = (case map_of d key of None \<Rightarrow> dflt | Some v \<Rightarrow> v)"

section \<open>Domain objects\<close>

text \<open>
  The classes \<open>Role\<close>, \<open>GuildRoleUpdateEvent\<close>, \<open>GatewayDispatch\<close> and \<open>Client\<close> are used
  by the middleware but declared elsewhere in the package; only the attributes the
  middleware reads or writes are fields here, and every further attribute lives in the
  extension part of the record. Identifiers (snowflakes) are of an arbitrary type \<open>'id\<close>:
  the code only compares them and uses them as dictionary keys.
\<close>

record 'id Role =
  id' :: 'id
  name :: string

text \<open>
  \<open>Guild\<close> (guild.py) is a dataclass of some sixty attributes; \<open>roles\<close> is a required
  one, \<open>unavailable\<close> has the default \<open>False\<close>.
\<close>

record ('id, 'r) Guild =
  guild_id' :: 'id
  guild_name :: string
  roles :: "('id, 'r) Role_scheme list"
  unavailable :: bool

record ('id, 'r) GuildRoleUpdateEvent =
  guild_id :: 'id
  role :: "('id, 'r) Role_scheme"

text \<open>
  The envelope of the wire protocol (\<open>GatewayDispatch\<close> in the code): opcode, optional
  sequence number, optional event name and the structured payload.
\<close>

record GatewayDispatch =
  opcode :: int
  sequence :: "nat option"
  event_name :: "string option"
  data :: json

text \<open>
  Python objects are shared by reference: \<open>self.guilds\<close> is a dictionary from guild id to
  a \<open>Guild\<close> object, and the middleware assigns to an attribute of that object. The client
  therefore carries the dictionary of references and the store of the \<open>Guild\<close> objects
  they point to. A \<open>Guild\<close> object defines neither \<open>__bool__\<close> nor \<open>__len__\<close>, so a
  cached guild is true in an \<open>if\<close>.
\<close>

type_synonym ref = nat

record ('id, 'r, 'g, 'h) Client =
  guilds :: "'id \<rightharpoonup> ref"
  objects :: "ref \<Rightarrow> ('id, 'r, 'g) Guild_scheme"
  http :: 'h

text \<open>The guild object that \<open>self.guilds.get(gid)\<close> yields, if any.\<close>

definition cached_guild :: "('id, 'r, 'g, 'h) Client \<Rightarrow> 'id \<Rightarrow> ('id, 'r, 'g) Guild_scheme option" where
  "cached_guild self gid = map_option (objects self) (guilds self gid)"

section \<open>pincer/middleware/guild\_role\_update.py\<close>

text \<open>
  \<open>GuildRoleUpdateEvent.from_dict\<close> belongs to the data-object layer and is a parameter
  \<open>from_dict\<close>; it may raise. The \<open>gateway\<close> argument is not used by the body. The result
  is the client after the call together with the returned pair.
\<close>

definition guild_role_update_middleware ::
  "(json \<Rightarrow> error + ('id, 'r) GuildRoleUpdateEvent) \<Rightarrow> ('id, 'r, 'g, 'h) Client \<Rightarrow> 'gw
     \<Rightarrow> GatewayDispatch
     \<Rightarrow> error + (('id, 'r, 'g, 'h) Client \<times> string \<times> ('id, 'r) GuildRoleUpdateEvent)" where
  "guild_role_update_middleware from_dict self gateway payload =
     (case from_dict (data payload) of
        Inl e \<Rightarrow> Inl e
      | Inr event \<Rightarrow>
          (case guilds self (guild_id event) of
             None \<Rightarrow> Inr (self, ''on_guild_role_update'', event)
           | Some guild \<Rightarrow>
               Inr (self\<lparr>objects := (objects self)(guild := (objects self guild)\<lparr>roles :=
                        map (\<lambda>r. if id' r \<noteq> id' (role event) then r else role event)
                          (roles (objects self guild))\<rparr>)\<rparr>,
                    ''on_guild_role_update'', event)))"

text \<open>
  Modelled from the spec: \<open>GuildRoleUpdateEvent.from_dict\<close> and \<open>Role.from_dict\<close>, the
  typed decode of the data-object layer (\<open>decode(json_value) -> T | DecodeError\<close>), which
  is not among the sources. The spec's scenario gives the event the keys \<open>guild_id\<close> and
  \<open>role\<close> and the role the keys \<open>id\<close> and \<open>name\<close>, all strings; unknown keys are
  tolerated, a missing or ill-typed required key is a \<open>DecodeError\<close>.
\<close>

fun Role_from_dict :: "json \<Rightarrow> error + string Role" where
  "Role_from_dict (JObj d) =
     (case (map_of d ''id'', map_of d ''name'') of
        (Some (JStr i), Some (JStr n)) \<Rightarrow> Inr \<lparr>id' = i, name = n\<rparr>
      | _ \<Rightarrow> Inl (DecodeError ''Role''))"
| "Role_from_dict _ = Inl (DecodeError ''Role'')"

fun GuildRoleUpdateEvent_from_dict :: "json \<Rightarrow> error + (string, unit) GuildRoleUpdateEvent" where
  "GuildRoleUpdateEvent_from_dict (JObj d) =
     (case (map_of d ''guild_id'', map_of d ''role'') of
        (Some (JStr g), Some r) \<Rightarrow>
          (case Role_from_dict r of
             Inl e \<Rightarrow> Inl e
           | Inr r' \<Rightarrow> Inr \<lparr>guild_id = g, role = r'\<rparr>)
      | _ \<Rightarrow> Inl (DecodeError ''GuildRoleUpdateEvent''))"
| "GuildRoleUpdateEvent_from_dict _ = Inl (DecodeError ''GuildRoleUpdateEvent'')"

text \<open>
  The scenario of the spec's testable properties: the Dispatch envelope
  \<open>{opcode:0, seq:5, event_name:"GUILD_ROLE_UPDATE", data:{guild_id:"1", role:{id:"9",
  name:"new"}}}\<close> and a client whose cache holds guild "1" with role "9" named "old".
\<close>

definition scenario_payload :: GatewayDispatch where
  "scenario_payload =
     \<lparr>opcode = 0, sequence = Some 5, event_name = Some ''GUILD_ROLE_UPDATE'',
      data = JObj [(''guild_id'', JStr ''1''),
                   (''role'', JObj [(''id'', JStr ''9''), (''name'', JStr ''new'')])]\<rparr>"

definition scenario_guild :: "(string, unit) Guild" where
  "scenario_guild =
     \<lparr>guild_id' = ''1'', guild_name = ''guild'', roles = [\<lparr>id' = ''9'', name = ''old''\<rparr>],
      unavailable = False\<rparr>"

definition scenario_client :: "(string, unit, unit, unit) Client" where
  "scenario_client = \<lparr>guilds = [''1'' \<mapsto> 0], objects = (\<lambda>_. scenario_guild), http = ()\<rparr>"

definition scenario_event :: "(string, unit) GuildRoleUpdateEvent" where
  "scenario_event = \<lparr>guild_id = ''1'', role = \<lparr>id' = ''9'', name = ''new''\<rparr>\<rparr>"

text \<open>The client of the scenario after the dispatch: the cached role is the decoded one.\<close>

definition scenario_after :: "(string, unit, unit, unit) Client" where
  "scenario_after =
     scenario_client\<lparr>objects := (objects scenario_client)
       (0 := scenario_guild\<lparr>roles := [\<lparr>id' = ''9'', name = ''new''\<rparr>]\<rparr>)\<rparr>"

text \<open>A second envelope, for a guild that the cache of the scenario does not hold.\<close>

definition other_payload :: GatewayDispatch where
  "other_payload =
     \<lparr>opcode = 0, sequence = Some 6, event_name = Some ''GUILD_ROLE_UPDATE'',
      data = JObj [(''guild_id'', JStr ''2''),
                   (''role'', JObj [(''id'', JStr ''9''), (''name'', JStr ''new'')])]\<rparr>"

definition other_event :: "(string, unit) GuildRoleUpdateEvent" where
  "other_event = \<lparr>guild_id = ''2'', role = \<lparr>id' = ''9'', name = ''new''\<rparr>\<rparr>"

text \<open>
  A client with two cached guilds: guild "1" holds the roles "9" and "7", guild "2" holds
  role "7" only; and the same client after the envelope of the scenario.
\<close>

definition frame_client :: "(string, unit, unit, unit) Client" where
  "frame_client =
     \<lparr>guilds = [''1'' \<mapsto> 0, ''2'' \<mapsto> Suc 0],
      objects = (\<lambda>_. scenario_guild)
        (0 := scenario_guild\<lparr>roles := [\<lparr>id' = ''9'', name = ''old''\<rparr>, \<lparr>id' = ''7'', name = ''mod''\<rparr>]\<rparr>,
         Suc 0 := \<lparr>guild_id' = ''2'', guild_name = ''other'',
                    roles = [\<lparr>id' = ''7'', name = ''mod''\<rparr>], unavailable = False\<rparr>),
      http = ()\<rparr>"

definition frame_after :: "(string, unit, unit, unit) Client" where
  "frame_after =
     frame_client\<lparr>objects := (objects frame_client)
       (0 := scenario_guild\<lparr>roles := [\<lparr>id' = ''9'', name = ''new''\<rparr>, \<lparr>id' = ''7'', name = ''mod''\<rparr>]\<rparr>)\<rparr>"

text \<open>The comprehension of the middleware, as a function of the event's role.\<close>

abbreviation replaced :: "('id, 'r) Role_scheme \<Rightarrow> ('id, 'r) Role_scheme list \<Rightarrow> ('id, 'r) Role_scheme list" where
  "replaced new rs \<equiv> map (\<lambda>r. if id' r \<noteq> id' new then r else new) rs"

section \<open>pincer/middleware/message\_create.py\<close>

text \<open>
  The dictionary handed to \<open>UserMessage.from_dict\<close> holds the client, its HTTP client and
  the values of the payload.
\<close>

datatype ('c, 'h) pyval = Json json | ClientRef 'c | HttpRef 'h

text \<open>\<open>d[k] = v\<close>: an existing key keeps its place, a new key goes last.\<close>

fun setitem :: "'k \<Rightarrow> 'v \<Rightarrow> ('k \<times> 'v) list \<Rightarrow> ('k \<times> 'v) list" where
  "setitem k v [] = [(k, v)]"
| "setitem k v ((k', v') # d) = (if k = k' then (k', v) # d else (k', v') # setitem k v d)"

text \<open>
  The dictionary display \<open>{"_client": self, "_http": self.http, **payload.data}\<close>: the
  items are stored from left to right, so a key of the payload wins over the two first ones.
  Unpacking a value that is not a mapping raises \<open>TypeError\<close>.
\<close>

definition merged :: "('id, 'r, 'g, 'h) Client \<Rightarrow> (string \<times> json) list
    \<Rightarrow> (string \<times> (('id, 'r, 'g, 'h) Client, 'h) pyval) list" where
  "merged self d =
     fold (\<lambda>(k, v). setitem k (Json v)) d
       [(''_client'', ClientRef self), (''_http'', HttpRef (http self))]"

text \<open>
  \<open>UserMessage.from_dict\<close> belongs to the data-object layer and is the parameter
  \<open>from_dict\<close>. The middleware takes the client and the payload only, and returns the name
  with a list of one message.
\<close>

definition message_create_middleware ::
  "((string \<times> (('id, 'r, 'g, 'h) Client, 'h) pyval) list \<Rightarrow> error + 'm)
     \<Rightarrow> ('id, 'r, 'g, 'h) Client \<Rightarrow> GatewayDispatch \<Rightarrow> error + (string \<times> 'm list)" where
  "message_create_middleware from_dict self payload =
     (case data payload of
        JObj d \<Rightarrow>
          (case from_dict (merged self d) of
             Inl e \<Rightarrow> Inl e
           | Inr message \<Rightarrow> Inr (''on_message'', [message]))
      | _ \<Rightarrow> Inl (TypeError ''argument after ** must be a mapping''))"

text \<open>An envelope of a created message.\<close>

definition message_payload :: GatewayDispatch where
  "message_payload =
     \<lparr>opcode = 0, sequence = Some 7, event_name = Some ''MESSAGE_CREATE'',
      data = JObj [(''id'', JStr ''3''), (''content'', JStr ''hi'')]\<rparr>"

section \<open>pincer/objects/guild/guild.py\<close>

text \<open>
  The names that guild.py binds when it is imported. Those imported under
  \<open>if TYPE_CHECKING:\<close> are bound only for a type checker: at run time
  \<open>typing.TYPE_CHECKING\<close> is \<open>False\<close>.
\<close>

definition TYPE_CHECKING :: bool where
  "TYPE_CHECKING = False"

definition module_globals :: "string list" where
  "module_globals =
     [''annotations'', ''overload'', ''TYPE_CHECKING'', ''IntEnum'', ''dataclass'', ''field'',
      ''MISSING'', ''APIObject'']
     @ (if TYPE_CHECKING then
          [''Dict'', ''List'', ''Optional'', ''Role'', ''Channel'', ''Client'', ''GuildMember'',
           ''StageInstance'', ''Emoji'', ''GuildFeatures'', ''Sticker'', ''APINullable'',
           ''Snowflake'', ''Timestamp'', ''VoiceState'', ''WelcomeScreen'',
           ''UnavailableGuildError'', ''PresenceUpdateEvent'']
        else [])
     @ [''PremiumTier'', ''GuildNSFWLevel'', ''ExplicitContentFilterLevel'', ''MFALevel'',
        ''VerificationLevel'', ''DefaultMessageNotificationLevel'', ''SystemChannelFlags'',
        ''Guild'']"

text \<open>
  \<open>Guild.from_dict\<close>. The parent's \<open>from_dict\<close> (\<open>APIObject\<close>) is the parameter
  \<open>super_from_dict\<close>. In \<open>raise UnavailableGuildError(f"... {data['id']} ...")\<close> the name
  of the class is looked up first (\<open>NameError\<close> when the module does not bind it), then the
  argument is built (\<open>KeyError\<close> when the dictionary has no \<open>id\<close>).
\<close>

definition Guild_from_dict :: "(json \<Rightarrow> error + 'g) \<Rightarrow> json \<Rightarrow> error + 'g" where
  "Guild_from_dict super_from_dict data' =
     (case data' of
        JObj d \<Rightarrow>
          if truthy (get d ''unavailable'' (JBool False)) then
            (if ''UnavailableGuildError'' \<in> set module_globals then
               (case map_of d ''id'' of
                  None \<Rightarrow> Inl (KeyError ''id'')
                | Some i \<Rightarrow> Inl (UnavailableGuildError i))
             else Inl (NameError ''UnavailableGuildError''))
          else super_from_dict data'
      | _ \<Rightarrow> Inl (AttributeError ''get''))"

text \<open>The dictionary that the gateway sends for a guild in an outage.\<close>

definition unavailable_guild :: json where
  "unavailable_guild = JObj [(''id'', JStr ''1''), (''unavailable'', JBool True)]"

section \<open>Session State Machine\<close>

definition Heartbeat :: int where "Heartbeat = 1"
definition Identify :: int where "Identify = 2"
definition StatusUpdate :: int where "StatusUpdate = 3"
definition VoiceStateUpdate :: int where "VoiceStateUpdate = 4"
definition Resume :: int where "Resume = 6"
definition Reconnect :: int where "Reconnect = 7"
definition InvalidSession :: int where "InvalidSession = 9"
definition Hello :: int where "Hello = 10"
definition HeartbeatAck :: int where "HeartbeatAck = 11"

text \<open>
  Modelled from the spec: the session, the state of the heartbeat controller, and the state
  machine that owns both and forwards envelopes to the dispatcher. The session id is
  \<open>None\<close> once it has been discarded.
\<close>

datatype status = Connecting | Identifying | Resuming | Ready | Degraded | Closed

record Session =
  session_id :: "string option"
  sequence_watermark :: nat
  shard_index :: nat
  shard_count :: nat
  status :: status

record HeartbeatState =
  interval :: nat
  last_sent :: nat
  ack_pending :: bool

record Machine =
  session :: Session
  heartbeat :: HeartbeatState
  forwarded :: "GatewayDispatch list"

text \<open>
  Modelled from the spec: what the \<open>Ready\<close> state does with one inbound envelope.
  "Every inbound envelope with a sequence number updates sequence_watermark (monotonic,
  last-write-wins)": the update is an assignment of the envelope's number, with no
  comparison; it is monotonic when the numbers arrive in non-decreasing order, which is the
  invariant of the envelope in the data model. A heartbeat-ack is routed to the heartbeat
  controller, which clears \<open>ack_pending\<close>. A reconnect request moves the session to
  \<open>Degraded\<close>, keeping session id and watermark. An invalid-session frame triggers a
  transition that the spec describes for \<open>Resuming\<close> only, and that is taken here: to
  \<open>Identifying\<close>, with the session id discarded. Any other envelope is forwarded to the
  dispatcher. In another state the envelope is not handled by this rule, and the machine
  is left as it is.
\<close>

definition receive :: "GatewayDispatch \<Rightarrow> Machine \<Rightarrow> Machine" where
  "receive envelope m =
     (if status (session m) = Ready then
        (let s = (case sequence envelope of
                    None \<Rightarrow> session m
                  | Some n \<Rightarrow> (session m)\<lparr>sequence_watermark := n\<rparr>)
         in if opcode envelope = HeartbeatAck then
              m\<lparr>session := s, heartbeat := (heartbeat m)\<lparr>ack_pending := False\<rparr>\<rparr>
            else if opcode envelope = Reconnect then
              m\<lparr>session := s\<lparr>status := Degraded\<rparr>\<rparr>
            else if opcode envelope = InvalidSession then
              m\<lparr>session := s\<lparr>status := Identifying, session_id := None\<rparr>\<rparr>
            else m\<lparr>session := s, forwarded := forwarded m @ [envelope]\<rparr>)
      else m)"







section \<open>Middleware Registry and Dispatcher\<close>

text \<open>
  Modelled from the spec: the handler registrations and the dispatcher (the client module is
  not among the sources). A callback is an opaque value; what it does when invoked is given
  by a function that tells whether it fails. The dispatcher holds the client context that
  the transforms update, the registrations in registration order, the log of the
  invocations made, and the errors reported.
\<close>

datatype mode = Persistent | OnceOnly

record 'cb HandlerRegistration =
  internal_event_name :: string
  callback :: 'cb
  mode :: mode

record ('ctx, 'cb, 'p) Dispatcher =
  client_context :: 'ctx
  registrations :: "'cb HandlerRegistration list"
  invocations :: "('cb \<times> 'p) list"
  reported :: "error list"

type_synonym ('ctx, 'p) transform = "'ctx \<Rightarrow> GatewayDispatch \<Rightarrow> error + ('ctx \<times> string \<times> 'p)"

text \<open>Modelled from the spec: \<open>on(event_name, callback)\<close> and \<open>once(event_name, callback)\<close>.\<close>

definition register :: "string \<Rightarrow> 'cb \<Rightarrow> mode \<Rightarrow> ('ctx, 'cb, 'p) Dispatcher \<Rightarrow> ('ctx, 'cb, 'p) Dispatcher" where
  "register n cb m d =
     d\<lparr>registrations := registrations d @ [\<lparr>internal_event_name = n, callback = cb, mode = m\<rparr>]\<rparr>"

definition once :: "string \<Rightarrow> 'cb \<Rightarrow> ('ctx, 'cb, 'p) Dispatcher \<Rightarrow> ('ctx, 'cb, 'p) Dispatcher" where
  "once n cb d = register n cb OnceOnly d"

text \<open>
  Modelled from the spec: \<open>Dispatcher.handle(envelope)\<close>, steps 1 to 4. No transform for
  the wire event name: the envelope is dropped. The transform fails: the error is reported
  and nothing else changes. Otherwise every registration for the internal event name is
  invoked with the payload, in registration order; the \<open>OnceOnly\<close> ones among them are
  removed; a handler that fails is reported and the others still run.
\<close>

definition handle ::
  "(string \<rightharpoonup> ('ctx, 'p) transform) \<Rightarrow> ('cb \<Rightarrow> 'p \<Rightarrow> error option) \<Rightarrow> GatewayDispatch
     \<Rightarrow> ('ctx, 'cb, 'p) Dispatcher \<Rightarrow> ('ctx, 'cb, 'p) Dispatcher" where
  "handle registry behaviour envelope d =
     (case event_name envelope of
        None \<Rightarrow> d
      | Some wire_event_name \<Rightarrow>
          (case registry wire_event_name of
             None \<Rightarrow> d
           | Some transform \<Rightarrow>
               (case transform (client_context d) envelope of
                  Inl e \<Rightarrow> d\<lparr>reported := reported d @ [e]\<rparr>
                | Inr (ctx, n, payload) \<Rightarrow>
                    d\<lparr>client_context := ctx,
                      registrations :=
                        filter (\<lambda>h. \<not> (internal_event_name h = n \<and> mode h = OnceOnly))
                          (registrations d),
                      invocations := invocations d @
                        map (\<lambda>h. (callback h, payload))
                          (filter (\<lambda>h. internal_event_name h = n) (registrations d)),
                      reported := reported d @
                        List.map_filter (\<lambda>h. behaviour (callback h) payload)
                          (filter (\<lambda>h. internal_event_name h = n) (registrations d))\<rparr>)))"

fun handle_all ::
  "(string \<rightharpoonup> ('ctx, 'p) transform) \<Rightarrow> ('cb \<Rightarrow> 'p \<Rightarrow> error option) \<Rightarrow> GatewayDispatch list
     \<Rightarrow> ('ctx, 'cb, 'p) Dispatcher \<Rightarrow> ('ctx, 'cb, 'p) Dispatcher" where
  "handle_all registry behaviour [] d = d"
| "handle_all registry behaviour (envelope # envelopes) d =
     handle_all registry behaviour envelopes (handle registry behaviour envelope d)"

text \<open>The internal event name an envelope maps to, when its transform succeeds.\<close>

definition maps_to ::
  "(string \<rightharpoonup> ('ctx, 'p) transform) \<Rightarrow> GatewayDispatch \<Rightarrow> ('ctx, 'cb, 'p) Dispatcher \<Rightarrow> string option" where
  "maps_to registry envelope d =
     (case event_name envelope of
        None \<Rightarrow> None
      | Some wire_event_name \<Rightarrow>
          (case registry wire_event_name of
             None \<Rightarrow> None
           | Some transform \<Rightarrow>
               (case transform (client_context d) envelope of
                  Inl e \<Rightarrow> None
                | Inr (ctx, n, payload) \<Rightarrow> Some n)))"

text \<open>How many times a callback has been invoked.\<close>

definition invocation_count :: "'cb \<Rightarrow> ('ctx, 'cb, 'p) Dispatcher \<Rightarrow> nat" where
  "invocation_count cb d = length (filter (\<lambda>(c, p). c = cb) (invocations d))"

text \<open>
  A registry of one transform, from the wire event \<open>EVT\<close> to the internal event \<open>E\<close>;
  handlers that never fail; a dispatcher with nothing registered; an envelope of \<open>EVT\<close>.
\<close>

definition registry_E :: "string \<rightharpoonup> (unit, json) transform" where
  "registry_E = [''EVT'' \<mapsto> (\<lambda>ctx envelope. Inr (ctx, ''E'', data envelope))]"

definition never_fails :: "nat \<Rightarrow> json \<Rightarrow> error option" where
  "never_fails cb payload = None"

definition fresh_dispatcher :: "(unit, nat, json) Dispatcher" where
  "fresh_dispatcher = \<lparr>client_context = (), registrations = [], invocations = [], reported = []\<rparr>"

definition envelope_EVT :: GatewayDispatch where
  "envelope_EVT = \<lparr>opcode = 0, sequence = Some 1, event_name = Some ''EVT'', data = JNull\<rparr>"

section \<open>Properties of the role-update middleware\<close>

lemma replaced_idem: "replaced new (replaced new rs) = replaced new rs"
  by (induction rs) simp_all

lemma replaced_ids: "map id' (replaced new rs) = map id' rs"
  by (induction rs) simp_all

lemma replaced_nth:
  "i < length rs \<Longrightarrow> replaced new rs ! i = (if id' (rs ! i) = id' new then new else rs ! i)"
  by simp

lemma replaced_no_match: "\<forall>r \<in> set rs. id' r \<noteq> id' new \<Longrightarrow> replaced new rs = rs"
  by (induction rs) simp_all

lemma middleware_hit:
  assumes "from_dict (data payload) = Inr event" and "guilds self (guild_id event) = Some a"
  shows "guild_role_update_middleware from_dict self gateway payload =
           Inr (self\<lparr>objects := (objects self)(a := (objects self a)\<lparr>roles :=
                  replaced (role event) (roles (objects self a))\<rparr>)\<rparr>,
                ''on_guild_role_update'', event)"
  using assms by (simp add: guild_role_update_middleware_def)

lemma middleware_miss:
  assumes "from_dict (data payload) = Inr event" and "guilds self (guild_id event) = None"
  shows "guild_role_update_middleware from_dict self gateway payload =
           Inr (self, ''on_guild_role_update'', event)"
  using assms by (simp add: guild_role_update_middleware_def)

lemma middleware_raise:
  assumes "from_dict (data payload) = Inl e"
  shows "guild_role_update_middleware from_dict self gateway payload = Inl e"
  using assms by (simp add: guild_role_update_middleware_def)

lemma middleware_returns:
  assumes "guild_role_update_middleware from_dict self gateway payload = Inr (self', n, event)"
  shows "from_dict (data payload) = Inr event \<and> n = ''on_guild_role_update''"
  using assms by (auto simp: guild_role_update_middleware_def split: sum.splits option.splits)

lemma scenario_decodes: "GuildRoleUpdateEvent_from_dict (data scenario_payload) = Inr scenario_event"
  by (simp add: scenario_payload_def scenario_event_def)

lemma other_decodes: "GuildRoleUpdateEvent_from_dict (data other_payload) = Inr other_event"
  by (simp add: other_payload_def other_event_def)

lemma scenario_cached: "cached_guild scenario_client (guild_id scenario_event) = Some scenario_guild"
  by (simp add: cached_guild_def scenario_client_def scenario_event_def)

lemma hit_cached:
  assumes d: "from_dict (data payload) = Inr event"
    and c: "cached_guild self (guild_id event) = Some g"
  shows "\<exists>self' g'.
            guild_role_update_middleware from_dict self gateway payload =
              Inr (self', ''on_guild_role_update'', event)
          \<and> cached_guild self' (guild_id event) = Some g'
          \<and> length (roles g') = length (roles g)
          \<and> (\<forall>i < length (roles g).
                roles g' ! i =
                  (if id' (roles g ! i) = id' (role event) then role event else roles g ! i))"
proof -
  from c obtain a where a: "guilds self (guild_id event) = Some a" and g: "g = objects self a"
    by (auto simp: cached_guild_def)
  define g' where "g' = g\<lparr>roles := replaced (role event) (roles g)\<rparr>"
  define self' where "self' = self\<lparr>objects := (objects self)(a := g')\<rparr>"
  have run: "guild_role_update_middleware from_dict self gateway payload =
               Inr (self', ''on_guild_role_update'', event)"
    using d a by (simp add: guild_role_update_middleware_def self'_def g'_def g)
  have cached: "cached_guild self' (guild_id event) = Some g'"
    using a by (simp add: cached_guild_def self'_def)
  have len: "length (roles g') = length (roles g)"
    by (simp add: g'_def)
  have nth: "\<forall>i < length (roles g).
                roles g' ! i =
                  (if id' (roles g ! i) = id' (role event) then role event else roles g ! i)"
    by (simp add: g'_def)
  from run cached len nth show ?thesis by blast
qed

lemma scenario_run:
  "guild_role_update_middleware GuildRoleUpdateEvent_from_dict scenario_client () scenario_payload =
     Inr (scenario_after, ''on_guild_role_update'', scenario_event)"
  by (simp add: guild_role_update_middleware_def scenario_decodes scenario_after_def)
     (simp add: scenario_event_def scenario_client_def scenario_guild_def)

text \<open>
  Claim C1. When the payload decodes to an event, and the client's guild cache holds a guild
  under the event's \<open>guild_id\<close>, the middleware returns normally and afterwards the cached
  guild's \<open>roles\<close> has the same length, with every entry whose id equals the event's role id
  replaced by the decoded role and every other entry as it was. For the scenario of the
  spec, cached guild "1" then holds role "9" with name "new".
\<close>

theorem role_update_replaces_matching_role:
  assumes "from_dict (data payload) = Inr event"
    and "cached_guild self (guild_id event) = Some g"
  shows "(\<exists>self' g'.
            guild_role_update_middleware from_dict self gateway payload =
              Inr (self', ''on_guild_role_update'', event)
          \<and> cached_guild self' (guild_id event) = Some g'
          \<and> length (roles g') = length (roles g)
          \<and> (\<forall>i < length (roles g).
                roles g' ! i =
                  (if id' (roles g ! i) = id' (role event) then role event else roles g ! i)))
       \<and> (\<exists>self' g'.
            guild_role_update_middleware GuildRoleUpdateEvent_from_dict scenario_client ()
              scenario_payload = Inr (self', ''on_guild_role_update'', scenario_event)
          \<and> cached_guild self' ''1'' = Some g'
          \<and> map (\<lambda>r. (id' r, name r)) (roles g') = [(''9'', ''new'')])"
proof (rule conjI)
  show "\<exists>self' g'.
            guild_role_update_middleware from_dict self gateway payload =
              Inr (self', ''on_guild_role_update'', event)
          \<and> cached_guild self' (guild_id event) = Some g'
          \<and> length (roles g') = length (roles g)
          \<and> (\<forall>i < length (roles g).
                roles g' ! i =
                  (if id' (roles g ! i) = id' (role event) then role event else roles g ! i))"
    using assms by (rule hit_cached)
next
  define g' :: "(string, unit) Guild" where
    "g' = scenario_guild\<lparr>roles := [\<lparr>id' = ''9'', name = ''new''\<rparr>]\<rparr>"
  define self' where "self' = scenario_client\<lparr>objects := (objects scenario_client)(0 := g')\<rparr>"
  have run: "guild_role_update_middleware GuildRoleUpdateEvent_from_dict scenario_client ()
              scenario_payload = Inr (self', ''on_guild_role_update'', scenario_event)"
    by (simp add: guild_role_update_middleware_def scenario_decodes self'_def g'_def)
       (simp add: scenario_event_def scenario_client_def scenario_guild_def)
  have cached: "cached_guild self' ''1'' = Some g'"
    by (simp add: cached_guild_def self'_def scenario_client_def)
  have nm: "map (\<lambda>r. (id' r, name r)) (roles g') = [(''9'', ''new'')]"
    by (simp add: g'_def)
  show "\<exists>self' g'.
            guild_role_update_middleware GuildRoleUpdateEvent_from_dict scenario_client ()
              scenario_payload = Inr (self', ''on_guild_role_update'', scenario_event)
          \<and> cached_guild self' ''1'' = Some g'
          \<and> map (\<lambda>r. (id' r, name r)) (roles g') = [(''9'', ''new'')]"
    by (rule exI [of _ self'], rule exI [of _ g'], intro conjI run cached nm)
qed

theorem role_update_replaces_matching_role_witness:
  "GuildRoleUpdateEvent_from_dict (data scenario_payload) = Inr scenario_event
   \<and> cached_guild scenario_client (guild_id scenario_event) = Some scenario_guild
   \<and> (\<exists>self' g'.
        guild_role_update_middleware GuildRoleUpdateEvent_from_dict scenario_client ()
          scenario_payload = Inr (self', ''on_guild_role_update'', scenario_event)
      \<and> cached_guild self' (guild_id scenario_event) = Some g'
      \<and> length (roles g') = length (roles scenario_guild)
      \<and> (\<forall>i < length (roles scenario_guild).
            roles g' ! i =
              (if id' (roles scenario_guild ! i) = id' (role scenario_event)
               then role scenario_event else roles scenario_guild ! i)))"
proof (intro conjI)
  show "GuildRoleUpdateEvent_from_dict (data scenario_payload) = Inr scenario_event"
    by (rule scenario_decodes)
  show "cached_guild scenario_client (guild_id scenario_event) = Some scenario_guild"
    by (rule scenario_cached)
  show "\<exists>self' g'.
        guild_role_update_middleware GuildRoleUpdateEvent_from_dict scenario_client ()
          scenario_payload = Inr (self', ''on_guild_role_update'', scenario_event)
      \<and> cached_guild self' (guild_id scenario_event) = Some g'
      \<and> length (roles g') = length (roles scenario_guild)
      \<and> (\<forall>i < length (roles scenario_guild).
            roles g' ! i =
              (if id' (roles scenario_guild ! i) = id' (role scenario_event)
               then role scenario_event else roles scenario_guild ! i))"
    by (rule conjunct1 [OF role_update_replaces_matching_role
          [where from_dict = GuildRoleUpdateEvent_from_dict and payload = scenario_payload
             and event = scenario_event and self = scenario_client and g = scenario_guild
             and gateway = "()", OF scenario_decodes scenario_cached]])
qed

text \<open>
  Claim C2. When the event's \<open>guild_id\<close> is not a key of the client's guild cache, the
  middleware returns normally, with the client (dictionary and guild objects) unchanged.
\<close>

theorem role_update_absent_guild_noop:
  assumes "from_dict (data payload) = Inr event"
    and "guilds self (guild_id event) = None"
  shows "guild_role_update_middleware from_dict self gateway payload =
           Inr (self, ''on_guild_role_update'', event)"
  using assms by (simp add: guild_role_update_middleware_def)

theorem role_update_absent_guild_noop_witness:
  "GuildRoleUpdateEvent_from_dict (data other_payload) = Inr other_event
   \<and> guilds scenario_client (guild_id other_event) = None
   \<and> guild_role_update_middleware GuildRoleUpdateEvent_from_dict scenario_client () other_payload =
       Inr (scenario_client, ''on_guild_role_update'', other_event)"
proof -
  have n: "guilds scenario_client (guild_id other_event) = None"
    by (simp add: scenario_client_def other_event_def)
  have "guild_role_update_middleware GuildRoleUpdateEvent_from_dict scenario_client () other_payload =
       Inr (scenario_client, ''on_guild_role_update'', other_event)"
    by (rule role_update_absent_guild_noop
          [where from_dict = GuildRoleUpdateEvent_from_dict and payload = other_payload
             and event = other_event and self = scenario_client and gateway = "()",
           OF other_decodes n])
  with other_decodes n show ?thesis by blast
qed

text \<open>
  Claim C3. The middleware returns the pair of the name \<open>on_guild_role_update\<close> and the
  event that \<open>GuildRoleUpdateEvent.from_dict\<close> decodes from the payload's data, whatever the
  cache holds; when the decoding raises, so does the middleware. For the scenario of the
  spec the returned event's role has the name "new".
\<close>

theorem role_update_returns_event:
  "(\<forall>event. from_dict (data payload) = Inr event \<longrightarrow>
      (\<exists>self'. guild_role_update_middleware from_dict self gateway payload =
                 Inr (self', ''on_guild_role_update'', event)))
   \<and> (\<forall>e. from_dict (data payload) = Inl e \<longrightarrow>
          guild_role_update_middleware from_dict self gateway payload = Inl e)
   \<and> (\<exists>self'. guild_role_update_middleware GuildRoleUpdateEvent_from_dict scenario_client ()
                  scenario_payload = Inr (self', ''on_guild_role_update'', scenario_event))
   \<and> name (role scenario_event) = ''new''"
proof (intro conjI allI impI)
  fix event assume "from_dict (data payload) = Inr event"
  then show "\<exists>self'. guild_role_update_middleware from_dict self gateway payload =
                 Inr (self', ''on_guild_role_update'', event)"
    by (cases "guilds self (guild_id event)") (simp_all add: guild_role_update_middleware_def)
next
  fix e assume "from_dict (data payload) = Inl e"
  then show "guild_role_update_middleware from_dict self gateway payload = Inl e"
    by (simp add: guild_role_update_middleware_def)
next
  show "\<exists>self'. guild_role_update_middleware GuildRoleUpdateEvent_from_dict scenario_client ()
                  scenario_payload = Inr (self', ''on_guild_role_update'', scenario_event)"
    by (cases "guilds scenario_client (guild_id scenario_event)")
       (simp_all add: guild_role_update_middleware_def scenario_decodes)
next
  show "name (role scenario_event) = ''new''"
    by (simp add: scenario_event_def)
qed

theorem role_update_returns_event_witness:
  "GuildRoleUpdateEvent_from_dict (data scenario_payload) = Inr scenario_event
   \<and> (\<exists>self'. guild_role_update_middleware GuildRoleUpdateEvent_from_dict scenario_client ()
                  scenario_payload = Inr (self', ''on_guild_role_update'', scenario_event))
   \<and> GuildRoleUpdateEvent_from_dict (data (scenario_payload\<lparr>data := JNull\<rparr>)) =
         Inl (DecodeError ''GuildRoleUpdateEvent'')
   \<and> guild_role_update_middleware GuildRoleUpdateEvent_from_dict scenario_client ()
         (scenario_payload\<lparr>data := JNull\<rparr>) = Inl (DecodeError ''GuildRoleUpdateEvent'')"
proof -
  note t1 = role_update_returns_event
    [where from_dict = GuildRoleUpdateEvent_from_dict and payload = scenario_payload
       and self = scenario_client and gateway = "()"]
  note t2 = role_update_returns_event
    [where from_dict = GuildRoleUpdateEvent_from_dict and payload = "scenario_payload\<lparr>data := JNull\<rparr>"
       and self = scenario_client and gateway = "()"]
  have d2: "GuildRoleUpdateEvent_from_dict (data (scenario_payload\<lparr>data := JNull\<rparr>)) =
         Inl (DecodeError ''GuildRoleUpdateEvent'')"
    by simp
  have a: "\<exists>self'. guild_role_update_middleware GuildRoleUpdateEvent_from_dict scenario_client ()
                  scenario_payload = Inr (self', ''on_guild_role_update'', scenario_event)"
    by (rule mp [OF spec [OF conjunct1 [OF t1]] scenario_decodes])
  have b: "guild_role_update_middleware GuildRoleUpdateEvent_from_dict scenario_client ()
         (scenario_payload\<lparr>data := JNull\<rparr>) = Inl (DecodeError ''GuildRoleUpdateEvent'')"
    by (rule mp [OF spec [OF conjunct1 [OF conjunct2 [OF t2]]] d2])
  show ?thesis by (intro conjI scenario_decodes a d2 b)
qed

text \<open>
  Claim C8. The cache side effect is idempotent: running the middleware again on the same
  payload, from the client the first run left, returns the same pair and leaves that client
  as it is.
\<close>

theorem role_update_idempotent:
  assumes "guild_role_update_middleware from_dict self gateway payload = Inr (self1, result)"
  shows "guild_role_update_middleware from_dict self1 gateway payload = Inr (self1, result)"
proof -
  obtain n event where r: "result = (n, event)" by (cases result)
  from assms r
  have run: "guild_role_update_middleware from_dict self gateway payload = Inr (self1, n, event)"
    by simp
  have d: "from_dict (data payload) = Inr event"
    by (rule conjunct1 [OF middleware_returns [OF run]])
  have n: "n = ''on_guild_role_update''"
    by (rule conjunct2 [OF middleware_returns [OF run]])
  show ?thesis
  proof (cases "guilds self (guild_id event)")
    case None
    with assms d r show ?thesis by (simp add: guild_role_update_middleware_def)
  next
    case (Some a)
    from assms r d Some
    have s1: "self1 = self\<lparr>objects := (objects self)(a := (objects self a)\<lparr>roles :=
                  replaced (role event) (roles (objects self a))\<rparr>)\<rparr>"
      by (simp add: guild_role_update_middleware_def)
    have g1: "guilds self1 (guild_id event) = Some a" using Some s1 by simp
    have o1: "roles (objects self1 a) = replaced (role event) (roles (objects self a))"
      by (simp add: s1)
    have "replaced (role event) (roles (objects self1 a)) = roles (objects self1 a)"
      unfolding o1 by (rule replaced_idem)
    then have fixp: "self1\<lparr>objects := (objects self1)(a := (objects self1 a)\<lparr>roles :=
                  replaced (role event) (roles (objects self1 a))\<rparr>)\<rparr> = self1"
      by simp
    show ?thesis
      using d g1 fixp r n by (simp add: guild_role_update_middleware_def)
  qed
qed

theorem role_update_idempotent_witness:
  "(\<exists>self1. guild_role_update_middleware GuildRoleUpdateEvent_from_dict scenario_client ()
               scenario_payload = Inr (self1, ''on_guild_role_update'', scenario_event)
           \<and> guild_role_update_middleware GuildRoleUpdateEvent_from_dict self1 ()
               scenario_payload = Inr (self1, ''on_guild_role_update'', scenario_event)
           \<and> self1 \<noteq> scenario_client)"
proof -
  define g' :: "(string, unit) Guild" where
    "g' = scenario_guild\<lparr>roles := [\<lparr>id' = ''9'', name = ''new''\<rparr>]\<rparr>"
  define self1 where "self1 = scenario_client\<lparr>objects := (objects scenario_client)(0 := g')\<rparr>"
  have run: "guild_role_update_middleware GuildRoleUpdateEvent_from_dict scenario_client ()
              scenario_payload = Inr (self1, ''on_guild_role_update'', scenario_event)"
    by (simp add: guild_role_update_middleware_def scenario_decodes self1_def g'_def)
       (simp add: scenario_event_def scenario_client_def scenario_guild_def)
  have again: "guild_role_update_middleware GuildRoleUpdateEvent_from_dict self1 ()
              scenario_payload = Inr (self1, ''on_guild_role_update'', scenario_event)"
    by (rule role_update_idempotent [OF run])
  have "roles (objects self1 0) \<noteq> roles (objects scenario_client 0)"
    by (simp add: self1_def g'_def scenario_client_def scenario_guild_def)
  then have ne: "self1 \<noteq> scenario_client" by auto
  show ?thesis
    by (rule exI [of _ self1], intro conjI run again ne)
qed

text \<open>
  Claim C9. Frame: the middleware changes neither the dictionary \<open>guilds\<close> nor \<open>http\<close>;
  every guild object other than the one cached under the event's \<open>guild_id\<close> is unchanged;
  of any guild object only \<open>roles\<close> may change; that list keeps its length and the ids at
  every position; an entry whose id differs from the event's role id is unchanged; and when
  no entry has the event's role id nothing changes, so the event's role is never inserted.
\<close>

theorem role_update_frame:
  assumes "guild_role_update_middleware from_dict self gateway payload = Inr (self', n, event)"
  shows "self' = self\<lparr>objects := objects self'\<rparr>
     \<and> (\<forall>a. guilds self (guild_id event) \<noteq> Some a \<longrightarrow> objects self' a = objects self a)
     \<and> (\<forall>a. objects self' a = (objects self a)\<lparr>roles := roles (objects self' a)\<rparr>)
     \<and> (\<forall>a. length (roles (objects self' a)) = length (roles (objects self a)))
     \<and> (\<forall>a. map id' (roles (objects self' a)) = map id' (roles (objects self a)))
     \<and> (\<forall>a i. i < length (roles (objects self a))
              \<and> id' (roles (objects self a) ! i) \<noteq> id' (role event)
            \<longrightarrow> roles (objects self' a) ! i = roles (objects self a) ! i)
     \<and> (\<forall>a. (\<forall>r \<in> set (roles (objects self a)). id' r \<noteq> id' (role event))
            \<longrightarrow> objects self' a = objects self a)"
proof -
  have d: "from_dict (data payload) = Inr event"
    by (rule conjunct1 [OF middleware_returns [OF assms]])
  show ?thesis
  proof (cases "guilds self (guild_id event)")
    case None
    with assms d have "self' = self" by (simp add: guild_role_update_middleware_def)
    then show ?thesis by simp
  next
    case (Some b)
    from assms d Some
    have s: "self' = self\<lparr>objects := (objects self)(b := (objects self b)\<lparr>roles :=
                  replaced (role event) (roles (objects self b))\<rparr>)\<rparr>"
      by (simp add: guild_role_update_middleware_def)
    have c1: "self' = self\<lparr>objects := objects self'\<rparr>" by (simp add: s)
    have c2: "\<forall>a. guilds self (guild_id event) \<noteq> Some a \<longrightarrow> objects self' a = objects self a"
      using Some by (simp add: s)
    have c3: "\<forall>a. objects self' a = (objects self a)\<lparr>roles := roles (objects self' a)\<rparr>"
      by (simp add: s)
    have c4: "\<forall>a. length (roles (objects self' a)) = length (roles (objects self a))"
      by (simp add: s)
    have c5: "\<forall>a. map id' (roles (objects self' a)) = map id' (roles (objects self a))"
      by (simp add: s replaced_ids)
    have c6: "\<forall>a i. i < length (roles (objects self a))
              \<and> id' (roles (objects self a) ! i) \<noteq> id' (role event)
            \<longrightarrow> roles (objects self' a) ! i = roles (objects self a) ! i"
      by (simp add: s)
    have c7: "\<forall>a. (\<forall>r \<in> set (roles (objects self a)). id' r \<noteq> id' (role event))
            \<longrightarrow> objects self' a = objects self a"
      by (simp add: s replaced_no_match)
    from c1 c2 c3 c4 c5 c6 c7 show ?thesis by (intro conjI)
  qed
qed

lemma frame_run:
  "guild_role_update_middleware GuildRoleUpdateEvent_from_dict frame_client () scenario_payload =
     Inr (frame_after, ''on_guild_role_update'', scenario_event)"
  by (simp add: guild_role_update_middleware_def scenario_decodes frame_after_def)
     (simp add: scenario_event_def frame_client_def scenario_guild_def)

theorem role_update_frame_witness:
  "guild_role_update_middleware GuildRoleUpdateEvent_from_dict frame_client () scenario_payload =
     Inr (frame_after, ''on_guild_role_update'', scenario_event)
   \<and> frame_after = frame_client\<lparr>objects := objects frame_after\<rparr>
   \<and> guilds frame_client (guild_id scenario_event) \<noteq> Some (Suc 0)
   \<and> objects frame_after (Suc 0) = objects frame_client (Suc 0)
   \<and> objects frame_after 0 = (objects frame_client 0)\<lparr>roles := roles (objects frame_after 0)\<rparr>
   \<and> length (roles (objects frame_after 0)) = length (roles (objects frame_client 0))
   \<and> map id' (roles (objects frame_after 0)) = map id' (roles (objects frame_client 0))
   \<and> Suc 0 < length (roles (objects frame_client 0))
   \<and> id' (roles (objects frame_client 0) ! Suc 0) \<noteq> id' (role scenario_event)
   \<and> roles (objects frame_after 0) ! Suc 0 = roles (objects frame_client 0) ! Suc 0
   \<and> id' ` set (roles (objects frame_client (Suc 0))) = {''7''}
   \<and> roles (objects frame_after 0) \<noteq> roles (objects frame_client 0)"
proof -
  note f = role_update_frame [OF frame_run]
  note f1 = conjunct1 [OF f]
  note f2 = conjunct1 [OF conjunct2 [OF f]]
  note f3 = conjunct1 [OF conjunct2 [OF conjunct2 [OF f]]]
  note f4 = conjunct1 [OF conjunct2 [OF conjunct2 [OF conjunct2 [OF f]]]]
  note f5 = conjunct1 [OF conjunct2 [OF conjunct2 [OF conjunct2 [OF conjunct2 [OF f]]]]]
  note f6 = conjunct1 [OF conjunct2 [OF conjunct2 [OF conjunct2 [OF conjunct2 [OF conjunct2 [OF f]]]]]]
  have h2: "guilds frame_client (guild_id scenario_event) \<noteq> Some (Suc 0)"
    by (simp add: frame_client_def scenario_event_def)
  have c2: "objects frame_after (Suc 0) = objects frame_client (Suc 0)"
    by (rule mp [OF spec [OF f2] h2])
  have c3: "objects frame_after 0 = (objects frame_client 0)\<lparr>roles := roles (objects frame_after 0)\<rparr>"
    by (rule spec [OF f3])
  have c4: "length (roles (objects frame_after 0)) = length (roles (objects frame_client 0))"
    by (rule spec [OF f4])
  have c5: "map id' (roles (objects frame_after 0)) = map id' (roles (objects frame_client 0))"
    by (rule spec [OF f5])
  have h6a: "Suc 0 < length (roles (objects frame_client 0))"
    by (simp add: frame_client_def)
  have h6b: "id' (roles (objects frame_client 0) ! Suc 0) \<noteq> id' (role scenario_event)"
    by (simp add: frame_client_def scenario_event_def)
  have c6: "roles (objects frame_after 0) ! Suc 0 = roles (objects frame_client 0) ! Suc 0"
    by (rule mp [OF spec [OF spec [OF f6]] conjI [OF h6a h6b]])
  have h7: "id' ` set (roles (objects frame_client (Suc 0))) = {''7''}"
    by (simp add: frame_client_def)
  have c8: "roles (objects frame_after 0) \<noteq> roles (objects frame_client 0)"
    by (simp add: frame_after_def frame_client_def)
  show ?thesis
    by (intro conjI frame_run f1 h2 c2 c3 c4 c5 h6a h6b c6 h7 c8)
qed

section \<open>Properties of the message-create middleware\<close>

lemma map_of_setitem: "map_of (setitem k v d) = (map_of d)(k \<mapsto> v)"
  by (induction d) (auto simp: fun_eq_iff)

lemma map_of_fold_setitem:
  "map_of (fold (\<lambda>(k, v). setitem k (f v)) d acc) k' =
     (case map_of (rev d) k' of None \<Rightarrow> map_of acc k' | Some v \<Rightarrow> Some (f v))"
proof (induction d arbitrary: acc)
  case Nil
  then show ?case by simp
next
  case (Cons x d)
  obtain k v where x: "x = (k, v)" by (cases x)
  show ?case
    by (simp add: x Cons.IH map_of_setitem map_add_def split: option.splits)
qed

lemma merged_lookup:
  "map_of (merged self d) k =
     (case map_of (rev d) k of
        Some v \<Rightarrow> Some (Json v)
      | None \<Rightarrow>
          if k = ''_client'' then Some (ClientRef self)
          else if k = ''_http'' then Some (HttpRef (http self))
          else None)"
  unfolding merged_def map_of_fold_setitem by (simp split: option.splits)

text \<open>
  Claim C4. When the payload's data is a dictionary and \<open>UserMessage.from_dict\<close> decodes
  the merged dictionary to a message, the middleware returns the pair of the name
  \<open>on_message\<close> and the list holding exactly that one message. The merged dictionary maps
  every key of the data to the data's value, and \<open>_client\<close> and \<open>_http\<close>, unless the data
  has these keys, to the client and to its HTTP client; it has no other key.
\<close>

theorem message_create_returns_message:
  assumes "data payload = JObj d"
    and "from_dict (merged self d) = Inr message"
  shows "message_create_middleware from_dict self payload = Inr (''on_message'', [message])
     \<and> (\<forall>k. map_of (merged self d) k =
            (case map_of (rev d) k of
               Some v \<Rightarrow> Some (Json v)
             | None \<Rightarrow>
                 if k = ''_client'' then Some (ClientRef self)
                 else if k = ''_http'' then Some (HttpRef (http self))
                 else None))"
  using assms by (simp add: message_create_middleware_def merged_lookup)

theorem message_create_returns_message_witness:
  "data message_payload = JObj [(''id'', JStr ''3''), (''content'', JStr ''hi'')]
   \<and> merged scenario_client [(''id'', JStr ''3''), (''content'', JStr ''hi'')] =
       [(''_client'', ClientRef scenario_client), (''_http'', HttpRef ()),
        (''id'', Json (JStr ''3'')), (''content'', Json (JStr ''hi''))]
   \<and> message_create_middleware Inr scenario_client message_payload =
       Inr (''on_message'',
            [[(''_client'', ClientRef scenario_client), (''_http'', HttpRef ()),
              (''id'', Json (JStr ''3'')), (''content'', Json (JStr ''hi''))]])"
proof -
  have d: "data message_payload = JObj [(''id'', JStr ''3''), (''content'', JStr ''hi'')]"
    by (simp add: message_payload_def)
  have m: "merged scenario_client [(''id'', JStr ''3''), (''content'', JStr ''hi'')] =
       [(''_client'', ClientRef scenario_client), (''_http'', HttpRef ()),
        (''id'', Json (JStr ''3'')), (''content'', Json (JStr ''hi''))]"
    by (simp add: merged_def scenario_client_def)
  have i: "Inr (merged scenario_client [(''id'', JStr ''3''), (''content'', JStr ''hi'')]) =
       (Inr (merged scenario_client [(''id'', JStr ''3''), (''content'', JStr ''hi'')])
          :: error + (string \<times> ((string, unit, unit, unit) Client, unit) pyval) list)"
    by (rule refl)
  note t = conjunct1 [OF message_create_returns_message
             [where from_dict = Inr and payload = message_payload and self = scenario_client, OF d i]]
  show ?thesis
    using d m t by simp
qed

section \<open>Properties of Guild.from\_dict\<close>

text \<open>
  Claim C10. On the dictionary of an unavailable guild, \<open>{"id": "1", "unavailable": true}\<close>,
  \<open>Guild.from_dict\<close> raises \<open>NameError\<close>, not \<open>UnavailableGuildError\<close>: the class is
  imported under \<open>if TYPE_CHECKING:\<close> only, so the module does not bind its name at run
  time.
\<close>

theorem Guild_from_dict_unavailable:
  "Guild_from_dict super_from_dict unavailable_guild = Inl (NameError ''UnavailableGuildError'')"
  by (simp add: Guild_from_dict_def unavailable_guild_def get_def module_globals_def
        TYPE_CHECKING_def)

section \<open>Properties of the sequence watermark\<close>

lemmas opcode_defs = Reconnect_def InvalidSession_def HeartbeatAck_def


text \<open>The transitions out of \<open>Ready\<close>, and the routing of a heartbeat-ack.\<close>

lemma receive_reconnect:
  assumes "status (session m) = Ready" and "opcode envelope = Reconnect"
  shows "status (session (receive envelope m)) = Degraded"
    and "session_id (session (receive envelope m)) = session_id (session m)"
    and "forwarded (receive envelope m) = forwarded m"
  using assms by (simp_all add: receive_def opcode_defs Let_def split: option.splits)

lemma receive_invalid_session:
  assumes "status (session m) = Ready" and "opcode envelope = InvalidSession"
  shows "status (session (receive envelope m)) = Identifying"
    and "session_id (session (receive envelope m)) = None"
    and "forwarded (receive envelope m) = forwarded m"
  using assms by (simp_all add: receive_def opcode_defs Let_def split: option.splits)

lemma receive_heartbeat_ack:
  assumes "status (session m) = Ready" and "opcode envelope = HeartbeatAck"
  shows "ack_pending (heartbeat (receive envelope m)) = False"
    and "forwarded (receive envelope m) = forwarded m"
  using assms by (simp_all add: receive_def Let_def)

text \<open>
  The update is monotonic on an envelope whose number is not below the watermark, and the
  watermark is the last number that arrived.
\<close>

lemma receive_monotonic:
  assumes "status (session m) = Ready"
    and "\<forall>n. sequence envelope = Some n \<longrightarrow> sequence_watermark (session m) \<le> n"
  shows "sequence_watermark (session m) \<le> sequence_watermark (session (receive envelope m))"
  using assms by (auto simp: receive_def Let_def split: option.splits)








section \<open>Properties of the dispatcher\<close>

lemma count_invoked:
  "length (filter (\<lambda>(c, p). c = cb) (map (\<lambda>h. (callback h, payload)) hs)) =
     length (filter (\<lambda>h. callback h = cb) hs)"
  by (induction hs) simp_all

lemma handle_dropped:
  assumes "maps_to registry envelope d = None"
  shows "registrations (handle registry behaviour envelope d) = registrations d"
    and "invocations (handle registry behaviour envelope d) = invocations d"
  using assms
  by (auto simp: maps_to_def handle_def split: option.splits sum.splits)

lemma handle_dispatched:
  assumes "maps_to registry envelope d = Some n"
  shows "registrations (handle registry behaviour envelope d) =
           filter (\<lambda>h. \<not> (internal_event_name h = n \<and> mode h = OnceOnly)) (registrations d)"
    and "invocation_count cb (handle registry behaviour envelope d) =
           invocation_count cb d +
           length (filter (\<lambda>h. callback h = cb)
                     (filter (\<lambda>h. internal_event_name h = n) (registrations d)))"
  using assms
  by (auto simp: maps_to_def handle_def invocation_count_def count_invoked
           split: option.splits sum.splits)

lemma handle_unregistered:
  assumes "\<forall>h \<in> set (registrations d). callback h \<noteq> cb"
  shows "(\<forall>h \<in> set (registrations (handle registry behaviour envelope d)). callback h \<noteq> cb)
     \<and> invocation_count cb (handle registry behaviour envelope d) = invocation_count cb d"
proof (cases "maps_to registry envelope d")
  case None
  then show ?thesis
    using assms by (simp add: handle_dropped invocation_count_def)
next
  case (Some n)
  have "filter (\<lambda>h. callback h = cb)
          (filter (\<lambda>h. internal_event_name h = n) (registrations d)) = []"
    using assms by (simp add: filter_empty_conv)
  then show ?thesis
    using assms by (simp add: handle_dispatched [OF Some])
qed

lemma handle_all_unregistered:
  assumes "\<forall>h \<in> set (registrations d). callback h \<noteq> cb"
  shows "invocation_count cb (handle_all registry behaviour envelopes d) = invocation_count cb d"
  using assms
proof (induction envelopes arbitrary: d)
  case Nil
  then show ?case by simp
next
  case (Cons envelope envelopes)
  note u = handle_unregistered [OF Cons.prems, of registry behaviour envelope]
  show ?case
    using Cons.IH [OF conjunct1 [OF u]] conjunct2 [OF u] by simp
qed

lemma once_first:
  assumes "\<forall>h \<in> set (registrations d). callback h \<noteq> cb"
    and "maps_to registry envelope (once n cb d) = Some n"
  shows "invocation_count cb (handle registry behaviour envelope (once n cb d)) =
           invocation_count cb d + 1"
    and "\<forall>h \<in> set (registrations (handle registry behaviour envelope (once n cb d))).
           callback h \<noteq> cb"
proof -
  have f: "filter (\<lambda>h. callback h = cb) (filter (\<lambda>h. internal_event_name h = n) (registrations d)) = []"
    using assms(1) by (simp add: filter_empty_conv)
  have c: "invocation_count cb (once n cb d) = invocation_count cb d"
    by (simp add: once_def register_def invocation_count_def)
  show "invocation_count cb (handle registry behaviour envelope (once n cb d)) =
           invocation_count cb d + 1"
    unfolding handle_dispatched(2) [OF assms(2)] c
    using f by (simp add: once_def register_def)
  show "\<forall>h \<in> set (registrations (handle registry behaviour envelope (once n cb d))).
           callback h \<noteq> cb"
    unfolding handle_dispatched(1) [OF assms(2)]
    using assms(1) by (simp add: once_def register_def)
qed

text \<open>
  Claim C6. A callback registered \<open>OnceOnly\<close> for the internal event \<open>n\<close>, and registered
  nowhere else, is invoked exactly one time by the dispatch of two envelopes that both map
  to \<open>n\<close>: the first dispatch invokes it and removes its registration, and no later
  dispatch of any envelopes invokes it again.
\<close>

theorem once_only_invoked_once:
  assumes "\<forall>h \<in> set (registrations d). callback h \<noteq> cb"
    and "maps_to registry e1 (once n cb d) = Some n"
    and "maps_to registry e2 (handle registry behaviour e1 (once n cb d)) = Some n"
  shows "invocation_count cb
           (handle registry behaviour e2 (handle registry behaviour e1 (once n cb d))) =
           invocation_count cb d + 1
     \<and> (\<forall>h \<in> set (registrations (handle registry behaviour e1 (once n cb d))).
           callback h \<noteq> cb)
     \<and> (\<forall>envelopes.
           invocation_count cb
             (handle_all registry behaviour envelopes
                (handle registry behaviour e1 (once n cb d))) =
           invocation_count cb d + 1)"
proof -
  note first = once_first [OF assms(1) assms(2), of behaviour]
  have later: "invocation_count cb
             (handle_all registry behaviour envelopes
                (handle registry behaviour e1 (once n cb d))) =
           invocation_count cb d + 1" for envelopes
    using handle_all_unregistered [OF first(2), of registry behaviour envelopes] first(1)
    by simp
  have two: "invocation_count cb
           (handle registry behaviour e2 (handle registry behaviour e1 (once n cb d))) =
           invocation_count cb d + 1"
    using later [of "[e2]"] by simp
  show ?thesis
    using two first(2) later by blast
qed

theorem once_only_invoked_once_witness:
  "registrations fresh_dispatcher = []
   \<and> maps_to registry_E envelope_EVT (once ''E'' 0 fresh_dispatcher) = Some ''E''
   \<and> maps_to registry_E envelope_EVT
         (handle registry_E never_fails envelope_EVT (once ''E'' 0 fresh_dispatcher)) = Some ''E''
   \<and> invocation_count 0
         (handle registry_E never_fails envelope_EVT
            (handle registry_E never_fails envelope_EVT (once ''E'' 0 fresh_dispatcher))) = 1
   \<and> invocation_count 0
         (handle_all registry_E never_fails [envelope_EVT, envelope_EVT, envelope_EVT]
            (handle registry_E never_fails envelope_EVT (once ''E'' 0 fresh_dispatcher))) = 1"
proof -
  have r: "registrations fresh_dispatcher = []" by (simp add: fresh_dispatcher_def)
  have h1: "\<forall>h \<in> set (registrations fresh_dispatcher). callback h \<noteq> (0::nat)"
    by (simp add: r)
  have m: "maps_to registry_E envelope_EVT d = Some ''E''" for d :: "(unit, nat, json) Dispatcher"
    by (simp add: maps_to_def registry_E_def envelope_EVT_def)
  have z: "invocation_count 0 fresh_dispatcher = 0"
    by (simp add: invocation_count_def fresh_dispatcher_def)
  note t = once_only_invoked_once [OF h1 m m, of never_fails]
  have a: "invocation_count 0
         (handle registry_E never_fails envelope_EVT
            (handle registry_E never_fails envelope_EVT (once ''E'' 0 fresh_dispatcher))) = 1"
    using conjunct1 [OF t] z by simp
  have b: "invocation_count 0
         (handle_all registry_E never_fails [envelope_EVT, envelope_EVT, envelope_EVT]
            (handle registry_E never_fails envelope_EVT (once ''E'' 0 fresh_dispatcher))) = 1"
    using spec [OF conjunct2 [OF conjunct2 [OF t]], of "[envelope_EVT, envelope_EVT, envelope_EVT]"] z
    by simp
  show ?thesis
    by (intro conjI r m a b)
qed

end
